theory Spec2Isabelle
  imports Complex_Main
begin

section \<open>The DNA helix geometry of \<open>DNAHelix.tsx\<close>\<close>

text \<open>
  The component computes, once per mount, the control points of the two backbone
  curves, the instance matrices of the base-pair rungs and of the junction nodes, and,
  on every frame, the rotation and the vertical position of the group.

  Numbers: a JavaScript number is modelled as a \<^typ>\<open>real\<close>, with exact arithmetic,
  and \<open>Math.cos\<close> and \<open>Math.sin\<close> as \<^const>\<open>cos\<close> and \<^const>\<open>sin\<close>. The
  rounding of IEEE-754 doubles is outside this model. The constant \<open>Math.PI\<close> is not
  the number \<^const>\<open>pi\<close>: it is the double nearest to it, \<open>3.141592653589793\<close>, a
  rational number slightly below \<^const>\<open>pi\<close>, and it is modelled as that rational.
  Loop counters and the base-pair count, which the source only uses as whole numbers,
  are \<^typ>\<open>nat\<close> and enter the arithmetic through \<^const>\<open>real\<close>.
\<close>

subsection \<open>Constants\<close>

definition BASE_PAIR_COUNT :: nat where
  "BASE_PAIR_COUNT = 20"

definition VERTICAL_STEP :: real where
  "VERTICAL_STEP = 0.45"

definition HELIX_RADIUS :: real where
  "HELIX_RADIUS = 1.2"

text \<open>
  \<open>Math.PI\<close> is the double \<open>0x400921FB54442D18\<close>, that is
  \<open>884279719003555 / 2\<^sup>4\<^sup>8\<close>.
\<close>

definition Math_PI :: real where
  "Math_PI = 884279719003555 / 281474976710656"

definition TWIST_PER_STEP :: real where
  "TWIST_PER_STEP = (2 * Math_PI) / 10"

definition BACKBONE_TUBE_SEGMENTS :: nat where
  "BACKBONE_TUBE_SEGMENTS = 128"

definition BACKBONE_TUBE_RADIUS :: real where
  "BACKBONE_TUBE_RADIUS = 0.06"

text \<open>A colour is the hexadecimal string the source gives to \<open>THREE.Color\<close>.\<close>

type_synonym Color = string

definition CYAN :: Color where
  "CYAN = ''#7df9ff''"

definition GREEN :: Color where
  "GREEN = ''#00ff88''"

definition PURPLE :: Color where
  "PURPLE = ''#9b59b6''"

subsection \<open>The part of three.js the component uses\<close>

text \<open>
  \<open>THREE.Vector3\<close>: the fields \<open>x\<close>, \<open>y\<close>, \<open>z\<close> are named \<open>vx\<close>, \<open>vy\<close>,
  \<open>vz\<close> here.
\<close>

record Vector3 =
  vx :: real
  vy :: real
  vz :: real

text \<open>
  The curve types of \<open>THREE.CatmullRomCurve3\<close> (its third argument is one of the
  strings \<open>'centripetal'\<close>, \<open>'chordal'\<close>, \<open>'catmullrom'\<close>; the library's default is
  \<open>'centripetal'\<close>), and the curve as its constructor stores it. The field
  \<open>closed\<close> is named \<open>closed'\<close> here.
\<close>

datatype CurveType = centripetal | chordal | catmullrom

record CatmullRomCurve3 =
  points :: "Vector3 list"
  closed' :: bool
  curveType :: CurveType
  tension :: real











text \<open>
  The orientation of an \<open>Object3D\<close> is kept as the calls that produced it: a fresh
  object has the identity quaternion; \<open>lookAt\<close> overwrites the quaternion with that of
  \<open>Matrix4.lookAt(target, position, up)\<close>, which turns the local Z axis of the object
  from its position towards the target; \<open>rotateX\<close> multiplies the quaternion by a
  rotation about the local X axis.
\<close>

datatype Quaternion =
  QIdentity
| QLookAt Vector3 Vector3 Vector3
| QRotateX Quaternion real

text \<open>
  A \<open>Matrix4\<close> made by \<open>Object3D.updateMatrix\<close> is
  \<open>compose(position, quaternion, scale)\<close>, the product of the translation, the
  rotation and the scaling; it is kept as these three components.
\<close>

record Matrix4 =
  translation :: Vector3
  rotation :: Quaternion
  scaling :: Vector3

record Object3D =
  position :: Vector3
  quaternion :: Quaternion
  scale :: Vector3
  up :: Vector3
  matrix :: Matrix4

definition new_Object3D :: Object3D where
  "new_Object3D =
     \<lparr>position = \<lparr>vx = 0, vy = 0, vz = 0\<rparr>,
      quaternion = QIdentity,
      scale = \<lparr>vx = 1, vy = 1, vz = 1\<rparr>,
      up = \<lparr>vx = 0, vy = 1, vz = 0\<rparr>,
      matrix = \<lparr>translation = \<lparr>vx = 0, vy = 0, vz = 0\<rparr>, rotation = QIdentity,
                scaling = \<lparr>vx = 1, vy = 1, vz = 1\<rparr>\<rparr>\<rparr>"

definition position_set :: "real \<Rightarrow> real \<Rightarrow> real \<Rightarrow> Object3D \<Rightarrow> Object3D" where
  "position_set a b c d = d\<lparr>position := \<lparr>vx = a, vy = b, vz = c\<rparr>\<rparr>"

definition updateMatrix :: "Object3D \<Rightarrow> Object3D" where
  "updateMatrix d =
     d\<lparr>matrix := \<lparr>translation = position d, rotation = quaternion d, scaling = scale d\<rparr>\<rparr>"

text \<open>
  \<open>lookAt\<close> first brings the matrix of the object up to date and reads the position
  of the object from it (the object has no parent here).
\<close>

definition lookAt :: "real \<Rightarrow> real \<Rightarrow> real \<Rightarrow> Object3D \<Rightarrow> Object3D" where
  "lookAt a b c d =
     (let d = updateMatrix d
      in d\<lparr>quaternion := QLookAt \<lparr>vx = a, vy = b, vz = c\<rparr> (translation (matrix d)) (up d)\<rparr>)"

definition rotateX :: "real \<Rightarrow> Object3D \<Rightarrow> Object3D" where
  "rotateX angle d = d\<lparr>quaternion := QRotateX (quaternion d) angle\<rparr>"

definition scale_set :: "real \<Rightarrow> real \<Rightarrow> real \<Rightarrow> Object3D \<Rightarrow> Object3D" where
  "scale_set a b c d = d\<lparr>scale := \<lparr>vx = a, vy = b, vz = c\<rparr>\<rparr>"

definition scale_setScalar :: "real \<Rightarrow> Object3D \<Rightarrow> Object3D" where
  "scale_setScalar s d = d\<lparr>scale := \<lparr>vx = s, vy = s, vz = s\<rparr>\<rparr>"

subsection \<open>buildBackboneCurve\<close>

text \<open>
  The loop \<open>for (let i = 0; i <= totalSteps; i++)\<close>, with the array \<open>points\<close> it
  pushes to as its state.
\<close>

function backbone_loop :: "real \<Rightarrow> nat \<Rightarrow> nat \<Rightarrow> Vector3 list \<Rightarrow> Vector3 list" where
  "backbone_loop phaseOffset totalSteps i pts =
     (if i \<le> totalSteps then
        (let t = real i / 4;
             angle = t * TWIST_PER_STEP + phaseOffset;
             y = t * VERTICAL_STEP - (real BASE_PAIR_COUNT * VERTICAL_STEP) / 2
         in backbone_loop phaseOffset totalSteps (i + 1)
              (pts @ [\<lparr>vx = cos angle * HELIX_RADIUS, vy = y, vz = sin angle * HELIX_RADIUS\<rparr>]))
      else pts)"
  by pat_completeness auto
termination
  by (relation "measure (\<lambda>(phaseOffset, totalSteps, i, pts). totalSteps + 1 - i)") auto

declare backbone_loop.simps [simp del]

definition buildBackboneCurve :: "real \<Rightarrow> CatmullRomCurve3" where
  "buildBackboneCurve phaseOffset =
     (let totalSteps = BASE_PAIR_COUNT * 4
      in \<lparr>points = backbone_loop phaseOffset totalSteps 0 [],
          closed' = False,
          curveType = catmullrom,
          tension = 0.5\<rparr>)"

subsection \<open>BackboneStrand\<close>

text \<open>
  \<open>new THREE.TubeGeometry(curve, BACKBONE_TUBE_SEGMENTS, BACKBONE_TUBE_RADIUS, 8, false)\<close>
  is kept as its arguments, and the mesh as its geometry and the colour of its material.
\<close>

record TubeGeometry =
  path :: CatmullRomCurve3
  tubularSegments :: nat
  tube_radius :: real
  tube_radialSegments :: nat
  tube_closed :: bool

record StrandMesh =
  geometry :: TubeGeometry
  strand_colour :: Color

definition BackboneStrand :: "real \<Rightarrow> Color \<Rightarrow> StrandMesh" where
  "BackboneStrand phaseOffset colour =
     (let curve = buildBackboneCurve phaseOffset
      in \<lparr>geometry =
            \<lparr>path = curve,
             tubularSegments = BACKBONE_TUBE_SEGMENTS,
             tube_radius = BACKBONE_TUBE_RADIUS,
             tube_radialSegments = 8,
             tube_closed = False\<rparr>,
          strand_colour = colour\<rparr>)"

subsection \<open>BasePairRungs\<close>

text \<open>
  The loop \<open>for (let i = 0; i < BASE_PAIR_COUNT; i++)\<close> of the \<open>useMemo\<close>. Its state
  is the object \<open>dummy\<close>, which all iterations share and mutate, and the array
  \<open>result\<close>, which receives a clone of \<open>dummy.matrix\<close> at the end of each iteration.
  The local \<open>length\<close> of the source is \<open>length'\<close> here.
\<close>

function rungs_loop :: "nat \<Rightarrow> Object3D \<Rightarrow> Matrix4 list \<Rightarrow> Matrix4 list" where
  "rungs_loop i dummy result =
     (if i < BASE_PAIR_COUNT then
        (let angle = real i * TWIST_PER_STEP;
             y = real i * VERTICAL_STEP - (real BASE_PAIR_COUNT * VERTICAL_STEP) / 2;
             ax = cos angle * HELIX_RADIUS;
             az = sin angle * HELIX_RADIUS;
             bx = cos (angle + Math_PI) * HELIX_RADIUS;
             bz = sin (angle + Math_PI) * HELIX_RADIUS;
             cx = (ax + bx) / 2;
             cz = (az + bz) / 2;
             length' = HELIX_RADIUS * 2;
             dummy = position_set cx y cz dummy;
             dummy = lookAt bx y bz dummy;
             dummy = rotateX (Math_PI / 2) dummy;
             dummy = scale_set 1 (length' / 2) 1 dummy;
             dummy = updateMatrix dummy
         in rungs_loop (i + 1) dummy (result @ [matrix dummy]))
      else result)"
  by pat_completeness auto
termination
  by (relation "measure (\<lambda>(i, dummy, result). BASE_PAIR_COUNT - i)") auto

declare rungs_loop.simps [simp del]

definition BasePairRungs_matrices :: "Matrix4 list" where
  "BasePairRungs_matrices =
     (let dummy = new_Object3D;
          result = []
      in rungs_loop 0 dummy result)"

text \<open>
  The prototype every rung matrix is applied to:
  \<open><cylinderGeometry args={[0.03, 0.03, 2, 6]} />\<close>, a cylinder of height 2 along its
  local Y axis, centred at the origin.
\<close>

record CylinderGeometry =
  radiusTop :: real
  radiusBottom :: real
  height :: real
  radialSegments :: nat

definition rung_cylinderGeometry :: CylinderGeometry where
  "rung_cylinderGeometry =
     \<lparr>radiusTop = 0.03, radiusBottom = 0.03, height = 2, radialSegments = 6\<rparr>"

text \<open>
  Under an instance matrix (translation, rotation, scaling) the axis of the cylinder is
  scaled by the Y component of the scaling before it is rotated and moved, so the
  instance is this long:
\<close>

definition instance_length :: "CylinderGeometry \<Rightarrow> Matrix4 \<Rightarrow> real" where
  "instance_length g m = height g * vy (scaling m)"

subsection \<open>BackboneNodes\<close>

function nodes_loop :: "real \<Rightarrow> nat \<Rightarrow> Object3D \<Rightarrow> Matrix4 list \<Rightarrow> Matrix4 list" where
  "nodes_loop phaseOffset i dummy result =
     (if i < BASE_PAIR_COUNT then
        (let angle = real i * TWIST_PER_STEP + phaseOffset;
             y = real i * VERTICAL_STEP - (real BASE_PAIR_COUNT * VERTICAL_STEP) / 2;
             dummy = position_set (cos angle * HELIX_RADIUS) y (sin angle * HELIX_RADIUS) dummy;
             dummy = scale_setScalar 1 dummy;
             dummy = updateMatrix dummy
         in nodes_loop phaseOffset (i + 1) dummy (result @ [matrix dummy]))
      else result)"
  by pat_completeness auto
termination
  by (relation "measure (\<lambda>(phaseOffset, i, dummy, result). BASE_PAIR_COUNT - i)") auto

declare nodes_loop.simps [simp del]

definition BackboneNodes_matrices :: "real \<Rightarrow> Matrix4 list" where
  "BackboneNodes_matrices phaseOffset =
     (let dummy = new_Object3D;
          result = []
      in nodes_loop phaseOffset 0 dummy result)"

subsection \<open>DNAHelix\<close>

text \<open>
  The group and its five children, in the order of the JSX. \<open>THREE.Euler\<close> has the
  fields \<open>x\<close>, \<open>y\<close>, \<open>z\<close>, named \<open>ex\<close>, \<open>ey\<close>, \<open>ez\<close> here.
\<close>

record Euler =
  ex :: real
  ey :: real
  ez :: real

record HelixChildren =
  strandA :: StrandMesh
  nodesA :: "Matrix4 list"
  strandB :: StrandMesh
  nodesB :: "Matrix4 list"
  rungs :: "Matrix4 list"

record Group =
  group_position :: Vector3
  group_rotation :: Euler
  children :: HelixChildren

definition DNAHelix_children :: HelixChildren where
  "DNAHelix_children =
     \<lparr>strandA = BackboneStrand 0 CYAN,
      nodesA = BackboneNodes_matrices 0,
      strandB = BackboneStrand Math_PI GREEN,
      nodesB = BackboneNodes_matrices Math_PI,
      rungs = BasePairRungs_matrices\<rparr>"

definition DNAHelix :: Group where
  "DNAHelix =
     \<lparr>group_position = \<lparr>vx = 0, vy = 0, vz = 0\<rparr>,
      group_rotation = \<lparr>ex = 0, ey = 0, ez = 0\<rparr>,
      children = DNAHelix_children\<rparr>"

text \<open>
  The callback given to \<open>useFrame\<close>: \<open>elapsedTime\<close> is what
  \<open>clock.getElapsedTime()\<close> returns, \<open>current\<close> is \<open>groupRef.current\<close>, which is
  null (\<open>None\<close>) until the group is mounted; the callback then returns at once.
\<close>

definition useFrame_callback :: "real \<Rightarrow> Group option \<Rightarrow> Group option" where
  "useFrame_callback elapsedTime current =
     (case current of
        None \<Rightarrow> None
      | Some g \<Rightarrow>
          (let t = elapsedTime;
               g = g\<lparr>group_rotation := (group_rotation g)\<lparr>ey := t * 0.15\<rparr>\<rparr>;
               g = g\<lparr>group_position := (group_position g)\<lparr>vy := sin (t * 0.5) * 0.15\<rparr>\<rparr>
           in Some g))"

subsection \<open>The midpoint of two points\<close>

text \<open>
  The rung placement is stated against the midpoint of two points of space, component
  by component.
\<close>

definition midpoint3 :: "Vector3 \<Rightarrow> Vector3 \<Rightarrow> Vector3" where
  "midpoint3 a b =
     \<lparr>vx = (vx a + vx b) / 2, vy = (vy a + vy b) / 2, vz = (vz a + vz b) / 2\<rparr>"

section \<open>The loops in closed form\<close>

text \<open>
  Each loop appends to its array the image of the indices it still has to visit. The
  rung loop depends on the object \<open>dummy\<close> it starts from only through the up vector,
  the node loop only through the quaternion, which it never writes.
\<close>

lemma upt_step: "i < n \<Longrightarrow> [i ..< n] = i # [i + 1 ..< n]"
  by (simp add: upt_conv_Cons)

lemma backbone_loop_eq:
  "i \<le> totalSteps + 1 \<Longrightarrow>
   backbone_loop phaseOffset totalSteps i pts =
     pts @ map (\<lambda>k. \<lparr>vx = cos (real k / 4 * TWIST_PER_STEP + phaseOffset) * HELIX_RADIUS,
                     vy = real k / 4 * VERTICAL_STEP - (real BASE_PAIR_COUNT * VERTICAL_STEP) / 2,
                     vz = sin (real k / 4 * TWIST_PER_STEP + phaseOffset) * HELIX_RADIUS\<rparr>)
            [i ..< totalSteps + 1]"
proof (induction phaseOffset totalSteps i pts rule: backbone_loop.induct)
  case (1 phaseOffset totalSteps i pts)
  let "_ = _ @ map ?f _" = ?case
  show ?case
  proof (cases "i \<le> totalSteps")
    case True
    have step: "backbone_loop phaseOffset totalSteps i pts =
                backbone_loop phaseOffset totalSteps (i + 1) (pts @ [?f i])"
      using True by (subst backbone_loop.simps) (simp add: Let_def)
    have rest: "backbone_loop phaseOffset totalSteps (i + 1) (pts @ [?f i]) =
                (pts @ [?f i]) @ map ?f [i + 1 ..< totalSteps + 1]"
      using "1.IH" [OF True refl refl refl] True by simp
    have "[i ..< totalSteps + 1] = i # [i + 1 ..< totalSteps + 1]"
      using True by (intro upt_step) simp
    with step rest show ?thesis
      by (simp only: list.map append_assoc append.simps)
  next
    case False
    with "1.prems" have "i = totalSteps + 1" by simp
    then show ?thesis
      by (subst backbone_loop.simps) simp
  qed
qed

lemma rungs_loop_eq:
  "i \<le> BASE_PAIR_COUNT \<Longrightarrow>
   rungs_loop i dummy result =
     result @ map (\<lambda>k.
        \<lparr>translation =
           \<lparr>vx = (cos (real k * TWIST_PER_STEP) * HELIX_RADIUS
                  + cos (real k * TWIST_PER_STEP + Math_PI) * HELIX_RADIUS) / 2,
            vy = real k * VERTICAL_STEP - (real BASE_PAIR_COUNT * VERTICAL_STEP) / 2,
            vz = (sin (real k * TWIST_PER_STEP) * HELIX_RADIUS
                  + sin (real k * TWIST_PER_STEP + Math_PI) * HELIX_RADIUS) / 2\<rparr>,
         rotation =
           QRotateX
             (QLookAt
                \<lparr>vx = cos (real k * TWIST_PER_STEP + Math_PI) * HELIX_RADIUS,
                 vy = real k * VERTICAL_STEP - (real BASE_PAIR_COUNT * VERTICAL_STEP) / 2,
                 vz = sin (real k * TWIST_PER_STEP + Math_PI) * HELIX_RADIUS\<rparr>
                \<lparr>vx = (cos (real k * TWIST_PER_STEP) * HELIX_RADIUS
                       + cos (real k * TWIST_PER_STEP + Math_PI) * HELIX_RADIUS) / 2,
                 vy = real k * VERTICAL_STEP - (real BASE_PAIR_COUNT * VERTICAL_STEP) / 2,
                 vz = (sin (real k * TWIST_PER_STEP) * HELIX_RADIUS
                       + sin (real k * TWIST_PER_STEP + Math_PI) * HELIX_RADIUS) / 2\<rparr>
                (up dummy))
             (Math_PI / 2),
         scaling = \<lparr>vx = 1, vy = HELIX_RADIUS * 2 / 2, vz = 1\<rparr>\<rparr>)
       [i ..< BASE_PAIR_COUNT]"
proof (induction i dummy result rule: rungs_loop.induct)
  case (1 i dummy result)
  let "_ = _ @ map ?f _" = ?case
  show ?case
  proof (cases "i < BASE_PAIR_COUNT")
    case True
    define dummy' where "dummy' =
      updateMatrix (scale_set 1 (HELIX_RADIUS * 2 / 2) 1 (rotateX (Math_PI / 2)
        (lookAt (cos (real i * TWIST_PER_STEP + Math_PI) * HELIX_RADIUS)
           (real i * VERTICAL_STEP - (real BASE_PAIR_COUNT * VERTICAL_STEP) / 2)
           (sin (real i * TWIST_PER_STEP + Math_PI) * HELIX_RADIUS)
           (position_set
              ((cos (real i * TWIST_PER_STEP) * HELIX_RADIUS
                + cos (real i * TWIST_PER_STEP + Math_PI) * HELIX_RADIUS) / 2)
              (real i * VERTICAL_STEP - (real BASE_PAIR_COUNT * VERTICAL_STEP) / 2)
              ((sin (real i * TWIST_PER_STEP) * HELIX_RADIUS
                + sin (real i * TWIST_PER_STEP + Math_PI) * HELIX_RADIUS) / 2)
              dummy))))"
    have m: "matrix dummy' = ?f i" and u: "up dummy' = up dummy"
      by (simp_all add: dummy'_def position_set_def lookAt_def rotateX_def scale_set_def
          updateMatrix_def)
    have step: "rungs_loop i dummy result = rungs_loop (i + 1) dummy' (result @ [matrix dummy'])"
      using True by (subst rungs_loop.simps) (simp add: Let_def dummy'_def)
    have rest: "rungs_loop (i + 1) dummy' (result @ [matrix dummy']) =
                (result @ [matrix dummy']) @ map ?f [i + 1 ..< BASE_PAIR_COUNT]"
      using "1.IH" [OF True refl refl refl refl refl refl refl refl refl refl refl refl refl refl,
          folded dummy'_def] True
      by (simp add: u)
    have "[i ..< BASE_PAIR_COUNT] = i # [i + 1 ..< BASE_PAIR_COUNT]"
      using True by (rule upt_step)
    with step rest show ?thesis
      by (simp only: list.map append_assoc append.simps m u)
  next
    case False
    with "1.prems" have "i = BASE_PAIR_COUNT" by simp
    then show ?thesis
      by (subst rungs_loop.simps) simp
  qed
qed

lemma nodes_loop_eq:
  "i \<le> BASE_PAIR_COUNT \<Longrightarrow>
   nodes_loop phaseOffset i dummy result =
     result @ map (\<lambda>k.
        \<lparr>translation =
           \<lparr>vx = cos (real k * TWIST_PER_STEP + phaseOffset) * HELIX_RADIUS,
            vy = real k * VERTICAL_STEP - (real BASE_PAIR_COUNT * VERTICAL_STEP) / 2,
            vz = sin (real k * TWIST_PER_STEP + phaseOffset) * HELIX_RADIUS\<rparr>,
         rotation = quaternion dummy,
         scaling = \<lparr>vx = 1, vy = 1, vz = 1\<rparr>\<rparr>)
       [i ..< BASE_PAIR_COUNT]"
proof (induction phaseOffset i dummy result rule: nodes_loop.induct)
  case (1 phaseOffset i dummy result)
  let "_ = _ @ map ?f _" = ?case
  show ?case
  proof (cases "i < BASE_PAIR_COUNT")
    case True
    define dummy' where "dummy' =
      updateMatrix (scale_setScalar 1
        (position_set (cos (real i * TWIST_PER_STEP + phaseOffset) * HELIX_RADIUS)
           (real i * VERTICAL_STEP - (real BASE_PAIR_COUNT * VERTICAL_STEP) / 2)
           (sin (real i * TWIST_PER_STEP + phaseOffset) * HELIX_RADIUS) dummy))"
    have m: "matrix dummy' = ?f i" and q: "quaternion dummy' = quaternion dummy"
      by (simp_all add: dummy'_def position_set_def scale_setScalar_def updateMatrix_def)
    have step: "nodes_loop phaseOffset i dummy result =
                nodes_loop phaseOffset (i + 1) dummy' (result @ [matrix dummy'])"
      using True by (subst nodes_loop.simps) (simp add: Let_def dummy'_def)
    have rest: "nodes_loop phaseOffset (i + 1) dummy' (result @ [matrix dummy']) =
                (result @ [matrix dummy']) @ map ?f [i + 1 ..< BASE_PAIR_COUNT]"
      using "1.IH" [OF True refl refl refl refl refl, folded dummy'_def] True
      by (simp add: q)
    have "[i ..< BASE_PAIR_COUNT] = i # [i + 1 ..< BASE_PAIR_COUNT]"
      using True by (rule upt_step)
    with step rest show ?thesis
      by (simp only: list.map append_assoc append.simps m q)
  next
    case False
    with "1.prems" have "i = BASE_PAIR_COUNT" by simp
    then show ?thesis
      by (subst nodes_loop.simps) simp
  qed
qed

lemma buildBackboneCurve_points:
  "points (buildBackboneCurve phaseOffset) =
     map (\<lambda>k. \<lparr>vx = cos (real k / 4 * TWIST_PER_STEP + phaseOffset) * HELIX_RADIUS,
               vy = real k / 4 * VERTICAL_STEP - (real BASE_PAIR_COUNT * VERTICAL_STEP) / 2,
               vz = sin (real k / 4 * TWIST_PER_STEP + phaseOffset) * HELIX_RADIUS\<rparr>)
       [0 ..< BASE_PAIR_COUNT * 4 + 1]"
  unfolding buildBackboneCurve_def Let_def
  by (simp only: CatmullRomCurve3.simps backbone_loop_eq [of 0] le0 append_Nil)

lemma length_points: "length (points (buildBackboneCurve phaseOffset)) = BASE_PAIR_COUNT * 4 + 1"
  by (simp only: buildBackboneCurve_points length_map length_upt diff_zero)

lemma nth_points:
  "i \<le> BASE_PAIR_COUNT * 4 \<Longrightarrow>
   points (buildBackboneCurve phaseOffset) ! i =
     \<lparr>vx = cos (real i / 4 * TWIST_PER_STEP + phaseOffset) * HELIX_RADIUS,
      vy = real i / 4 * VERTICAL_STEP - (real BASE_PAIR_COUNT * VERTICAL_STEP) / 2,
      vz = sin (real i / 4 * TWIST_PER_STEP + phaseOffset) * HELIX_RADIUS\<rparr>"
  by (simp add: buildBackboneCurve_points del: upt_Suc)

lemma BasePairRungs_matrices_eq:
  "BasePairRungs_matrices =
     map (\<lambda>k.
        \<lparr>translation =
           \<lparr>vx = (cos (real k * TWIST_PER_STEP) * HELIX_RADIUS
                  + cos (real k * TWIST_PER_STEP + Math_PI) * HELIX_RADIUS) / 2,
            vy = real k * VERTICAL_STEP - (real BASE_PAIR_COUNT * VERTICAL_STEP) / 2,
            vz = (sin (real k * TWIST_PER_STEP) * HELIX_RADIUS
                  + sin (real k * TWIST_PER_STEP + Math_PI) * HELIX_RADIUS) / 2\<rparr>,
         rotation =
           QRotateX
             (QLookAt
                \<lparr>vx = cos (real k * TWIST_PER_STEP + Math_PI) * HELIX_RADIUS,
                 vy = real k * VERTICAL_STEP - (real BASE_PAIR_COUNT * VERTICAL_STEP) / 2,
                 vz = sin (real k * TWIST_PER_STEP + Math_PI) * HELIX_RADIUS\<rparr>
                \<lparr>vx = (cos (real k * TWIST_PER_STEP) * HELIX_RADIUS
                       + cos (real k * TWIST_PER_STEP + Math_PI) * HELIX_RADIUS) / 2,
                 vy = real k * VERTICAL_STEP - (real BASE_PAIR_COUNT * VERTICAL_STEP) / 2,
                 vz = (sin (real k * TWIST_PER_STEP) * HELIX_RADIUS
                       + sin (real k * TWIST_PER_STEP + Math_PI) * HELIX_RADIUS) / 2\<rparr>
                \<lparr>vx = 0, vy = 1, vz = 0\<rparr>)
             (Math_PI / 2),
         scaling = \<lparr>vx = 1, vy = HELIX_RADIUS * 2 / 2, vz = 1\<rparr>\<rparr>)
       [0 ..< BASE_PAIR_COUNT]"
proof -
  have "up new_Object3D = \<lparr>vx = 0, vy = 1, vz = 0\<rparr>"
    by (simp add: new_Object3D_def)
  then show ?thesis
    unfolding BasePairRungs_matrices_def Let_def
    by (simp only: rungs_loop_eq [of 0] le0 append_Nil)
qed

lemma length_rungs: "length BasePairRungs_matrices = BASE_PAIR_COUNT"
  by (simp only: BasePairRungs_matrices_eq length_map length_upt diff_zero)

lemma BackboneNodes_matrices_eq:
  "BackboneNodes_matrices phaseOffset =
     map (\<lambda>k.
        \<lparr>translation =
           \<lparr>vx = cos (real k * TWIST_PER_STEP + phaseOffset) * HELIX_RADIUS,
            vy = real k * VERTICAL_STEP - (real BASE_PAIR_COUNT * VERTICAL_STEP) / 2,
            vz = sin (real k * TWIST_PER_STEP + phaseOffset) * HELIX_RADIUS\<rparr>,
         rotation = QIdentity,
         scaling = \<lparr>vx = 1, vy = 1, vz = 1\<rparr>\<rparr>)
       [0 ..< BASE_PAIR_COUNT]"
proof -
  have "quaternion new_Object3D = QIdentity"
    by (simp add: new_Object3D_def)
  then show ?thesis
    unfolding BackboneNodes_matrices_def Let_def
    by (simp only: nodes_loop_eq [of 0] le0 append_Nil)
qed

lemma length_nodes: "length (BackboneNodes_matrices phaseOffset) = BASE_PAIR_COUNT"
  by (simp only: BackboneNodes_matrices_eq length_map length_upt diff_zero)

lemma nth_rungs:
  "i < BASE_PAIR_COUNT \<Longrightarrow>
   translation (BasePairRungs_matrices ! i) =
     \<lparr>vx = (cos (real i * TWIST_PER_STEP) * HELIX_RADIUS
            + cos (real i * TWIST_PER_STEP + Math_PI) * HELIX_RADIUS) / 2,
      vy = real i * VERTICAL_STEP - (real BASE_PAIR_COUNT * VERTICAL_STEP) / 2,
      vz = (sin (real i * TWIST_PER_STEP) * HELIX_RADIUS
            + sin (real i * TWIST_PER_STEP + Math_PI) * HELIX_RADIUS) / 2\<rparr>
   \<and> scaling (BasePairRungs_matrices ! i) = \<lparr>vx = 1, vy = HELIX_RADIUS * 2 / 2, vz = 1\<rparr>"
  by (simp add: BasePairRungs_matrices_eq)

lemma nth_nodes:
  "i < BASE_PAIR_COUNT \<Longrightarrow>
   BackboneNodes_matrices phaseOffset ! i =
     \<lparr>translation =
        \<lparr>vx = cos (real i * TWIST_PER_STEP + phaseOffset) * HELIX_RADIUS,
         vy = real i * VERTICAL_STEP - (real BASE_PAIR_COUNT * VERTICAL_STEP) / 2,
         vz = sin (real i * TWIST_PER_STEP + phaseOffset) * HELIX_RADIUS\<rparr>,
      rotation = QIdentity,
      scaling = \<lparr>vx = 1, vy = 1, vz = 1\<rparr>\<rparr>"
  by (simp add: BackboneNodes_matrices_eq)

section \<open>Math.PI lies below pi\<close>





section \<open>The height along the backbone curve\<close>









section \<open>The claims\<close>

text \<open>
  C1. For every base-pair index \<open>i\<close> below 20, the translation of the \<open>i\<close>-th rung
  matrix is the midpoint of the strand-A point (angle \<open>i * TWIST_PER_STEP\<close>) and the
  strand-B point (that angle plus \<open>Math.PI\<close>), both at distance \<open>HELIX_RADIUS\<close> from the
  axis and at the level \<open>i * VERTICAL_STEP - (BASE_PAIR_COUNT * VERTICAL_STEP) / 2\<close>;
  these two points are the \<open>i\<close>-th junction nodes of the two strands. The scaling is 1
  across the rung and \<open>length / 2 = HELIX_RADIUS\<close> along it, so the rung, a cylinder
  of height 2, is \<open>2 * HELIX_RADIUS\<close> long.
\<close>

theorem rung_transform_midpoint_and_length:
  assumes "i < BASE_PAIR_COUNT"
  shows "translation (BasePairRungs_matrices ! i) =
           midpoint3
             \<lparr>vx = HELIX_RADIUS * cos (real i * TWIST_PER_STEP),
              vy = real i * VERTICAL_STEP - (real BASE_PAIR_COUNT * VERTICAL_STEP) / 2,
              vz = HELIX_RADIUS * sin (real i * TWIST_PER_STEP)\<rparr>
             \<lparr>vx = HELIX_RADIUS * cos (real i * TWIST_PER_STEP + Math_PI),
              vy = real i * VERTICAL_STEP - (real BASE_PAIR_COUNT * VERTICAL_STEP) / 2,
              vz = HELIX_RADIUS * sin (real i * TWIST_PER_STEP + Math_PI)\<rparr>
       \<and> translation (BasePairRungs_matrices ! i) =
           midpoint3 (translation (BackboneNodes_matrices 0 ! i))
             (translation (BackboneNodes_matrices Math_PI ! i))
       \<and> scaling (BasePairRungs_matrices ! i) = \<lparr>vx = 1, vy = (2 * HELIX_RADIUS) / 2, vz = 1\<rparr>
       \<and> vy (scaling (BasePairRungs_matrices ! i)) = HELIX_RADIUS
       \<and> instance_length rung_cylinderGeometry (BasePairRungs_matrices ! i) = 2 * HELIX_RADIUS"
proof -
  note r = nth_rungs [OF assms]
  have n: "translation (BackboneNodes_matrices 0 ! i) =
             \<lparr>vx = cos (real i * TWIST_PER_STEP) * HELIX_RADIUS,
              vy = real i * VERTICAL_STEP - (real BASE_PAIR_COUNT * VERTICAL_STEP) / 2,
              vz = sin (real i * TWIST_PER_STEP) * HELIX_RADIUS\<rparr>"
          "translation (BackboneNodes_matrices Math_PI ! i) =
             \<lparr>vx = cos (real i * TWIST_PER_STEP + Math_PI) * HELIX_RADIUS,
              vy = real i * VERTICAL_STEP - (real BASE_PAIR_COUNT * VERTICAL_STEP) / 2,
              vz = sin (real i * TWIST_PER_STEP + Math_PI) * HELIX_RADIUS\<rparr>"
    by (simp_all add: nth_nodes [OF assms])
  have 1: "translation (BasePairRungs_matrices ! i) =
           midpoint3
             \<lparr>vx = HELIX_RADIUS * cos (real i * TWIST_PER_STEP),
              vy = real i * VERTICAL_STEP - (real BASE_PAIR_COUNT * VERTICAL_STEP) / 2,
              vz = HELIX_RADIUS * sin (real i * TWIST_PER_STEP)\<rparr>
             \<lparr>vx = HELIX_RADIUS * cos (real i * TWIST_PER_STEP + Math_PI),
              vy = real i * VERTICAL_STEP - (real BASE_PAIR_COUNT * VERTICAL_STEP) / 2,
              vz = HELIX_RADIUS * sin (real i * TWIST_PER_STEP + Math_PI)\<rparr>"
    by (simp add: r midpoint3_def)
  have 2: "translation (BasePairRungs_matrices ! i) =
           midpoint3 (translation (BackboneNodes_matrices 0 ! i))
             (translation (BackboneNodes_matrices Math_PI ! i))"
    by (simp add: r n midpoint3_def)
  have 3: "scaling (BasePairRungs_matrices ! i) = \<lparr>vx = 1, vy = (2 * HELIX_RADIUS) / 2, vz = 1\<rparr>"
    by (simp add: r)
  have 4: "vy (scaling (BasePairRungs_matrices ! i)) = HELIX_RADIUS"
    by (simp add: r)
  have 5: "instance_length rung_cylinderGeometry (BasePairRungs_matrices ! i) = 2 * HELIX_RADIUS"
    by (simp add: r instance_length_def rung_cylinderGeometry_def)
  from 1 2 3 4 5 show ?thesis by blast
qed

theorem rung_transform_midpoint_and_length_witness:
  "3 < BASE_PAIR_COUNT
   \<and> (translation (BasePairRungs_matrices ! 3) =
           midpoint3
             \<lparr>vx = HELIX_RADIUS * cos (real 3 * TWIST_PER_STEP),
              vy = real 3 * VERTICAL_STEP - (real BASE_PAIR_COUNT * VERTICAL_STEP) / 2,
              vz = HELIX_RADIUS * sin (real 3 * TWIST_PER_STEP)\<rparr>
             \<lparr>vx = HELIX_RADIUS * cos (real 3 * TWIST_PER_STEP + Math_PI),
              vy = real 3 * VERTICAL_STEP - (real BASE_PAIR_COUNT * VERTICAL_STEP) / 2,
              vz = HELIX_RADIUS * sin (real 3 * TWIST_PER_STEP + Math_PI)\<rparr>
       \<and> translation (BasePairRungs_matrices ! 3) =
           midpoint3 (translation (BackboneNodes_matrices 0 ! 3))
             (translation (BackboneNodes_matrices Math_PI ! 3))
       \<and> scaling (BasePairRungs_matrices ! 3) = \<lparr>vx = 1, vy = (2 * HELIX_RADIUS) / 2, vz = 1\<rparr>
       \<and> vy (scaling (BasePairRungs_matrices ! 3)) = HELIX_RADIUS
       \<and> instance_length rung_cylinderGeometry (BasePairRungs_matrices ! 3) = 2 * HELIX_RADIUS)"
proof -
  have h: "3 < BASE_PAIR_COUNT"
    by (simp add: BASE_PAIR_COUNT_def)
  from h rung_transform_midpoint_and_length [OF h] show ?thesis
    by (rule conjI)
qed




text \<open>
  C3. For every phase offset and every step \<open>i\<close> below \<open>BASE_PAIR_COUNT\<close>, the
  control point of the curve at the quarter-step index \<open>4 * i\<close> is the position of the
  \<open>i\<close>-th junction node of the same phase offset (the same x, y and z); the matrix of
  a junction node has the scaling 1 in all three directions and the identity rotation.
\<close>

theorem curve_point_at_integer_step_is_junction_node:
  assumes "i < BASE_PAIR_COUNT"
  shows "points (buildBackboneCurve phaseOffset) ! (4 * i) = translation (BackboneNodes_matrices phaseOffset ! i)
       \<and> scaling (BackboneNodes_matrices phaseOffset ! i) = \<lparr>vx = 1, vy = 1, vz = 1\<rparr>
       \<and> rotation (BackboneNodes_matrices phaseOffset ! i) = QIdentity"
proof -
  from assms have "4 * i \<le> BASE_PAIR_COUNT * 4" by simp
  then have "points (buildBackboneCurve phaseOffset) ! (4 * i) =
     \<lparr>vx = cos (real (4 * i) / 4 * TWIST_PER_STEP + phaseOffset) * HELIX_RADIUS,
      vy = real (4 * i) / 4 * VERTICAL_STEP - (real BASE_PAIR_COUNT * VERTICAL_STEP) / 2,
      vz = sin (real (4 * i) / 4 * TWIST_PER_STEP + phaseOffset) * HELIX_RADIUS\<rparr>"
    by (rule nth_points)
  moreover have "real (4 * i) / 4 = real i" by simp
  ultimately show ?thesis
    by (simp add: nth_nodes [OF assms])
qed

theorem curve_point_at_integer_step_is_junction_node_witness:
  "3 < BASE_PAIR_COUNT
   \<and> (points (buildBackboneCurve pi) ! (4 * 3) = translation (BackboneNodes_matrices pi ! 3)
       \<and> scaling (BackboneNodes_matrices pi ! 3) = \<lparr>vx = 1, vy = 1, vz = 1\<rparr>
       \<and> rotation (BackboneNodes_matrices pi ! 3) = QIdentity)"
proof -
  have h: "3 < BASE_PAIR_COUNT"
    by (simp add: BASE_PAIR_COUNT_def)
  from h curve_point_at_integer_step_is_junction_node [OF h] show ?thesis
    by (rule conjI)
qed




text \<open>
  C5. On a mounted group the frame callback sets \<open>rotation.y = t * 0.15\<close> and
  \<open>position.y = sin (t * 0.5) * 0.15\<close>, whose absolute value never exceeds 0.15, and
  leaves every other component of the group as it was (the other two angles, the other
  two coordinates, the children); at \<open>t = 0\<close> both are 0, and at \<open>t = pi\<close> the
  position is 0.15. Before the group is mounted the callback changes nothing.
\<close>

theorem useFrame_callback_sets_rotation_and_bob:
  "\<exists>g'. useFrame_callback t (Some g) = Some g'
       \<and> ey (group_rotation g') = t * 0.15
       \<and> vy (group_position g') = sin (t * 0.5) * 0.15
       \<and> \<bar>vy (group_position g')\<bar> \<le> 0.15
       \<and> ex (group_rotation g') = ex (group_rotation g)
       \<and> ez (group_rotation g') = ez (group_rotation g)
       \<and> vx (group_position g') = vx (group_position g)
       \<and> vz (group_position g') = vz (group_position g)
       \<and> children g' = children g
       \<and> (\<exists>g0. useFrame_callback 0 (Some g) = Some g0
             \<and> ey (group_rotation g0) = 0 \<and> vy (group_position g0) = 0)
       \<and> (\<exists>g1. useFrame_callback pi (Some g) = Some g1
             \<and> vy (group_position g1) = 0.15)
       \<and> useFrame_callback t None = None"
proof -
  have "\<bar>sin (t * 0.5) * 0.15\<bar> \<le> (0.15 :: real)"
    using abs_sin_le_one [of "t * 0.5"] by (simp add: abs_mult)
  moreover have "sin (pi * 0.5) = (1 :: real)"
    by simp
  ultimately show ?thesis
    by (simp add: useFrame_callback_def Let_def)
qed

text \<open>
  C6. There are as many rung matrices as junction-node matrices of a strand, namely
  \<open>BASE_PAIR_COUNT = 20\<close>, and the \<open>i\<close>-th rung and the \<open>i\<close>-th junction node of any
  strand lie at the same level
  \<open>y = i * VERTICAL_STEP - (BASE_PAIR_COUNT * VERTICAL_STEP) / 2\<close>.
\<close>

theorem rung_and_node_counts_and_levels:
  assumes "i < BASE_PAIR_COUNT"
  shows "length BasePairRungs_matrices = length (BackboneNodes_matrices phaseOffset)
       \<and> length BasePairRungs_matrices = BASE_PAIR_COUNT
       \<and> length (BackboneNodes_matrices phaseOffset) = BASE_PAIR_COUNT
       \<and> BASE_PAIR_COUNT = 20
       \<and> vy (translation (BasePairRungs_matrices ! i)) =
           real i * VERTICAL_STEP - (real BASE_PAIR_COUNT * VERTICAL_STEP) / 2
       \<and> vy (translation (BackboneNodes_matrices phaseOffset ! i)) =
           real i * VERTICAL_STEP - (real BASE_PAIR_COUNT * VERTICAL_STEP) / 2"
  using nth_rungs [OF assms]
  by (simp add: length_rungs length_nodes nth_nodes [OF assms]) (simp add: BASE_PAIR_COUNT_def)

theorem rung_and_node_counts_and_levels_witness:
  "19 < BASE_PAIR_COUNT
   \<and> (length BasePairRungs_matrices = length (BackboneNodes_matrices pi)
       \<and> length BasePairRungs_matrices = BASE_PAIR_COUNT
       \<and> length (BackboneNodes_matrices pi) = BASE_PAIR_COUNT
       \<and> BASE_PAIR_COUNT = 20
       \<and> vy (translation (BasePairRungs_matrices ! 19)) =
           real 19 * VERTICAL_STEP - (real BASE_PAIR_COUNT * VERTICAL_STEP) / 2
       \<and> vy (translation (BackboneNodes_matrices pi ! 19)) =
           real 19 * VERTICAL_STEP - (real BASE_PAIR_COUNT * VERTICAL_STEP) / 2)"
proof -
  have h: "19 < BASE_PAIR_COUNT"
    by (simp add: BASE_PAIR_COUNT_def)
  from h rung_and_node_counts_and_levels [OF h] show ?thesis
    by (rule conjI)
qed

text \<open>
  C7. For every phase offset the curve has \<open>4 * 20 + 1 = 81\<close> control points.
\<close>

theorem buildBackboneCurve_point_count:
  "length (points (buildBackboneCurve phaseOffset)) = 4 * BASE_PAIR_COUNT + 1
   \<and> length (points (buildBackboneCurve phaseOffset)) = 4 * 20 + 1
   \<and> length (points (buildBackboneCurve phaseOffset)) = 81"
  by (simp add: length_points BASE_PAIR_COUNT_def)

text \<open>
  C8. Two invocations of \<open>buildBackboneCurve\<close> with the same phase offset return the
  same curve, with the same sequence of points. The function reads its argument and the
  constants only; the one piece of state it writes, the array \<open>points\<close>, is its own, and
  the loop would append the same sequence to whatever such an array held before.
\<close>

theorem buildBackboneCurve_deterministic:
  assumes "phaseOffset1 = phaseOffset2"
  shows "buildBackboneCurve phaseOffset1 = buildBackboneCurve phaseOffset2
       \<and> points (buildBackboneCurve phaseOffset1) = points (buildBackboneCurve phaseOffset2)
       \<and> backbone_loop phaseOffset1 (BASE_PAIR_COUNT * 4) 0 pts =
           pts @ points (buildBackboneCurve phaseOffset2)"
proof -
  have "backbone_loop phaseOffset1 (BASE_PAIR_COUNT * 4) 0 pts =
          pts @ points (buildBackboneCurve phaseOffset1)"
    by (simp only: buildBackboneCurve_points backbone_loop_eq [of 0] le0)
  with assms show ?thesis
    by simp
qed

theorem buildBackboneCurve_deterministic_witness:
  "pi = pi
   \<and> (buildBackboneCurve pi = buildBackboneCurve pi
       \<and> points (buildBackboneCurve pi) = points (buildBackboneCurve pi)
       \<and> backbone_loop pi (BASE_PAIR_COUNT * 4) 0 [\<lparr>vx = 1, vy = 2, vz = 3\<rparr>] =
           [\<lparr>vx = 1, vy = 2, vz = 3\<rparr>] @ points (buildBackboneCurve pi))"
proof -
  have h: "pi = pi"
    by (rule refl)
  from h buildBackboneCurve_deterministic [OF h] show ?thesis
    by (rule conjI)
qed

text \<open>
  C9. Every control point of the curve, for any phase offset, lies at the distance
  \<open>HELIX_RADIUS\<close> from the Y axis: \<open>x\<^sup>2 + z\<^sup>2 = HELIX_RADIUS\<^sup>2\<close>, in exact real
  arithmetic.
\<close>

theorem control_points_on_cylinder:
  assumes "i < length (points (buildBackboneCurve phaseOffset))"
  shows "(vx (points (buildBackboneCurve phaseOffset) ! i))\<^sup>2
         + (vz (points (buildBackboneCurve phaseOffset) ! i))\<^sup>2 = HELIX_RADIUS\<^sup>2"
proof -
  from assms have "i \<le> BASE_PAIR_COUNT * 4"
    by (simp add: length_points)
  then show ?thesis
    by (simp add: nth_points power_mult_distrib flip: distrib_right)
qed

theorem control_points_on_cylinder_witness:
  "80 < length (points (buildBackboneCurve 1))
   \<and> (vx (points (buildBackboneCurve 1) ! 80))\<^sup>2
         + (vz (points (buildBackboneCurve 1) ! 80))\<^sup>2 = HELIX_RADIUS\<^sup>2"
proof -
  have h: "80 < length (points (buildBackboneCurve 1))"
    by (simp add: length_points BASE_PAIR_COUNT_def)
  from h control_points_on_cylinder [OF h] show ?thesis
    by (rule conjI)
qed



end
